theory Spec2Isabelle
  imports Complex_Main
begin

section \<open>The resilient event listener of src/resilientEventListener.ts\<close>

text \<open>
  The listener is a closure over five mutable variables (\<open>ws\<close>, \<open>pingTimeout\<close>,
  \<open>keepAliveInterval\<close>, \<open>stopped\<close>, \<open>reconnectDelay\<close>) whose handlers are run by the
  WebSocket library and by the timer subsystem. The model is explicit state passing: every
  handler is a function from the state to the state (and to the fault it throws, if any),
  every outside call a handler makes is appended to \<open>effects\<close>, and the pending timers and
  the transports created so far are part of the state.
\<close>

subsection \<open>Values of the language\<close>

text \<open>
  A JavaScript value as \<open>JSON.parse\<close> produces it, with \<open>undefined\<close> added for absent
  properties and the uninitialised \<open>subscriptionId\<close>. An object is the list of its own
  properties; \<open>map_of\<close> reads the first entry of a name.
\<close>

datatype jsval =
    JUndefined
  | JNull
  | JBool bool
  | JNum real
  | JStr string
  | JArr "jsval list"
  | JObj "(string \<times> jsval) list"

datatype fault = TypeError | SendError | ContractError | DecodeError

text \<open>
  \<open>a === b\<close>. Primitives compare by value. Two objects or arrays are equal only when they
  are the same reference, and the handler only ever compares values that come from two
  different calls of \<open>JSON.parse\<close>, so objects and arrays are never equal here.
\<close>

fun strict_eq :: "jsval \<Rightarrow> jsval \<Rightarrow> bool" where
  "strict_eq JUndefined JUndefined = True"
| "strict_eq JNull JNull = True"
| "strict_eq (JBool a) (JBool b) = (a = b)"
| "strict_eq (JNum a) (JNum b) = (a = b)"
| "strict_eq (JStr a) (JStr b) = (a = b)"
| "strict_eq _ _ = False"

text \<open>
  \<open>v.name\<close>: a TypeError on \<open>null\<close> and \<open>undefined\<close>, the own property of an object,
  and \<open>undefined\<close> otherwise (none of the names the handler reads, \<open>id\<close>, \<open>result\<close>,
  \<open>method\<close>, \<open>params\<close>, \<open>subscription\<close>, is a property of a number, string, boolean or
  array, or inherited by an object).
\<close>

fun get_prop :: "jsval \<Rightarrow> string \<Rightarrow> fault + jsval" where
  "get_prop JUndefined name = Inl TypeError"
| "get_prop JNull name = Inl TypeError"
| "get_prop (JObj kvs) name = Inr (case map_of kvs name of Some v \<Rightarrow> v | None \<Rightarrow> JUndefined)"
| "get_prop v name = Inr JUndefined"

text \<open>\<open>v?.name\<close>: \<open>undefined\<close> on \<open>null\<close> and \<open>undefined\<close>, \<open>v.name\<close> otherwise.\<close>

definition opt_prop :: "jsval \<Rightarrow> string \<Rightarrow> jsval" where
  "opt_prop v name = (case get_prop v name of Inl f \<Rightarrow> JUndefined | Inr x \<Rightarrow> x)"

text \<open>
  \<open>x || d\<close> on an optional number: the default when \<open>x\<close> is \<open>undefined\<close> or \<open>0\<close>.
  Durations are whole milliseconds.
\<close>

definition js_or :: "int option \<Rightarrow> int \<Rightarrow> int" where
  "js_or x d = (case x of None \<Rightarrow> d | Some v \<Rightarrow> if v = 0 then d else v)"

subsection \<open>Configuration and collaborators\<close>

datatype LogLevel = Debug | Info | Warn | Error

datatype LogDescription = LogDescription (name: string) (args: "jsval list")

text \<open>
  \<open>ResilientEventListenerArgs\<close>. \<open>has_log\<close> and \<open>has_callback\<close> say whether the optional
  functions \<open>log\<close> and \<open>callback\<close> are given; the ABI is part of what \<open>contract_topicHash\<close>
  and \<open>parseLog\<close> compute.
\<close>

record ResilientEventListenerArgs =
  rpcUrl :: string
  contractAddress :: string
  eventName :: string
  has_log :: bool
  has_callback :: bool
  keepAliveCheckInterval :: "int option"
  expectedPongBack :: "int option"

text \<open>
  What the libraries compute, taken as parameters: \<open>JSON.parse\<close> (\<open>None\<close> when it throws),
  \<open>contract.getEvent(eventName).getFragment().topicHash\<close> and
  \<open>contract.interface.parseLog\<close> (both may throw).
\<close>

record env =
  JSON_parse :: "string \<Rightarrow> jsval option"
  contract_topicHash :: "string \<Rightarrow> fault + string"
  parseLog :: "jsval \<Rightarrow> fault + LogDescription option"

definition DEFAULT_EXPECTED_PONG_BACK :: int where
  "DEFAULT_EXPECTED_PONG_BACK = 15000"

definition DEFAULT_KEEP_ALIVE_CHECK_INTERVAL :: int where
  "DEFAULT_KEEP_ALIVE_CHECK_INTERVAL = 60 * 1000"

subsection \<open>Transports, timers, effects and the state\<close>

datatype ready_state = CONNECTING | OPEN | CLOSING | CLOSED

text \<open>
  One transport per call of \<open>connect\<close>, with the variables of that call's closure:
  \<open>installed\<close> holds once the handlers are assigned, \<open>topicHash\<close> is the topic of
  \<open>request\<close>, \<open>subscriptionId\<close> starts out \<open>undefined\<close>.
\<close>

record transport =
  readyState :: ready_state
  installed :: bool
  topicHash :: string
  subscriptionId :: jsval

datatype timer_kind = ReconnectTimer | KeepAliveTimer | PongTimer

text \<open>The objects \<open>request\<close> (id 1) and \<open>ping\<close> (id 2) that are sent.\<close>

datatype request = EthSubscribe string string | NetListening

fun request_id :: "request \<Rightarrow> real" where
  "request_id (EthSubscribe topic address) = 1"
| "request_id NetListening = 2"

datatype effect =
    ELog LogLevel string
  | ENewWebSocket nat string
  | ESend nat request
  | EClose nat
  | ETerminate nat
  | ESetTimer nat timer_kind int
  | EClearTimer nat
  | EParseLog jsval
  | ECallback "LogDescription option"
  | EUncaught fault

text \<open>
  \<open>ws\<close>, \<open>pingTimeout\<close> and \<open>keepAliveInterval\<close> are references (a transport number, a
  timer number) or \<open>null\<close>. \<open>timers\<close> are the timers that are armed and not yet cleared
  or fired, with their kind and delay.
\<close>

record state =
  ws :: "nat option"
  pingTimeout :: "nat option"
  keepAliveInterval :: "nat option"
  stopped :: bool
  reconnectDelay :: int
  transports :: "transport list"
  timers :: "(nat \<times> timer_kind \<times> int) list"
  next_timer :: nat
  effects :: "effect list"

definition initial :: state where
  "initial = \<lparr>ws = None, pingTimeout = None, keepAliveInterval = None, stopped = False,
     reconnectDelay = 1000, transports = [], timers = [], next_timer = 0, effects = []\<rparr>"

definition emit :: "effect \<Rightarrow> state \<Rightarrow> state" where
  "emit e s = s\<lparr>effects := effects s @ [e]\<rparr>"

text \<open>
  The inner \<open>log\<close>: forwards to \<open>args.log\<close> when it is given. The message is recorded
  without its timestamp prefix and without the values interpolated into it.
\<close>

definition log_msg :: "ResilientEventListenerArgs \<Rightarrow> LogLevel \<Rightarrow> string \<Rightarrow> state \<Rightarrow> state" where
  "log_msg a level message s = (if has_log a then emit (ELog level message) s else s)"

text \<open>\<open>setTimeout\<close> and \<open>setInterval\<close>: a fresh timer, returned with the new state.\<close>

definition setTimer :: "timer_kind \<Rightarrow> int \<Rightarrow> state \<Rightarrow> nat \<times> state" where
  "setTimer kind d s =
     (next_timer s,
      emit (ESetTimer (next_timer s) kind d)
        (s\<lparr>timers := timers s @ [(next_timer s, kind, d)], next_timer := Suc (next_timer s)\<rparr>))"

text \<open>\<open>clearTimeout\<close> and \<open>clearInterval\<close>: nothing changes for a timer that is not armed.\<close>

definition clearTimer :: "nat \<Rightarrow> state \<Rightarrow> state" where
  "clearTimer t s = emit (EClearTimer t) (s\<lparr>timers := filter (\<lambda>x. fst x \<noteq> t) (timers s)\<rparr>)"

text \<open>\<open>if (h) clearTimeout(h)\<close> for a handle \<open>h\<close> that may be \<open>null\<close>.\<close>

definition clear_if_set :: "nat option \<Rightarrow> state \<Rightarrow> state" where
  "clear_if_set h s = (case h of None \<Rightarrow> s | Some t \<Rightarrow> clearTimer t s)"

definition ready_of :: "state \<Rightarrow> nat \<Rightarrow> ready_state" where
  "ready_of s k = (if k < length (transports s) then readyState (transports s ! k) else CLOSED)"

definition set_ready :: "nat \<Rightarrow> ready_state \<Rightarrow> state \<Rightarrow> state" where
  "set_ready k r s =
     (if k < length (transports s)
      then s\<lparr>transports := (transports s)[k := (transports s ! k)\<lparr>readyState := r\<rparr>]\<rparr>
      else s)"

text \<open>
  \<open>ws.close()\<close> and \<open>ws.terminate()\<close> of the library: a transport that is not yet closed
  starts closing.
\<close>

definition begin_closing :: "nat \<Rightarrow> state \<Rightarrow> state" where
  "begin_closing k s = (if ready_of s k = CLOSED then s else set_ready k CLOSING s)"

text \<open>
  \<open>ws.send(JSON.stringify(r))\<close> on the variable \<open>ws\<close>: a TypeError when \<open>ws\<close> is
  \<open>null\<close>; the library throws while the transport is connecting, sends when it is open and
  drops the data when it is closing or closed.
\<close>

definition ws_send :: "request \<Rightarrow> state \<Rightarrow> fault option \<times> state" where
  "ws_send r s =
     (case ws s of
        None \<Rightarrow> (Some TypeError, s)
      | Some c \<Rightarrow>
          (case ready_of s c of
             CONNECTING \<Rightarrow> (Some SendError, s)
           | OPEN \<Rightarrow> (None, emit (ESend c r) s)
           | CLOSING \<Rightarrow> (None, s)
           | CLOSED \<Rightarrow> (None, s)))"

subsection \<open>The handlers\<close>

text \<open>
  \<open>connect\<close>: nothing when the listener is stopped. Otherwise a new transport becomes
  \<open>ws\<close>; the topic lookup may throw, and then the transport is left without handlers.
\<close>

definition connect :: "env \<Rightarrow> ResilientEventListenerArgs \<Rightarrow> state \<Rightarrow> fault option \<times> state" where
  "connect ev a s0 =
     (if stopped s0 then (None, log_msg a Info ''Listener stopped, not reconnecting.'' s0)
      else
        let s1 = log_msg a Info ''Connecting to WebSocket'' s0;
            k = length (transports s1);
            s2 = emit (ENewWebSocket k (rpcUrl a))
                   (s1\<lparr>ws := Some k,
                       transports := transports s1 @
                         [\<lparr>readyState = CONNECTING, installed = False, topicHash = [],
                           subscriptionId = JUndefined\<rparr>]\<rparr>)
        in case contract_topicHash ev (eventName a) of
             Inl f \<Rightarrow> (Some f, s2)
           | Inr th \<Rightarrow>
               let s3 = log_msg a Debug ''Subscribing to event listener with topic hash'' s2
               in (None, s3\<lparr>transports := (transports s3)
                           [k := (transports s3 ! k)\<lparr>installed := True, topicHash := th\<rparr>]\<rparr>))"

text \<open>\<open>ws.onerror\<close>: logs.\<close>

definition onerror :: "ResilientEventListenerArgs \<Rightarrow> state \<Rightarrow> state" where
  "onerror a s = log_msg a Error ''WebSocket error:'' s"

text \<open>
  \<open>ws.onclose\<close>: clears the two timers whose handles are held, forgets the transport and,
  unless stopped, arms the reconnect timer with the current delay and doubles the delay up
  to 30 seconds.
\<close>

definition onclose :: "ResilientEventListenerArgs \<Rightarrow> state \<Rightarrow> state" where
  "onclose a s0 =
     (let s1 = log_msg a Info ''WebSocket connection closed.'' s0;
          s2 = clear_if_set (keepAliveInterval s1) s1;
          s3 = clear_if_set (pingTimeout s2) s2;
          s4 = s3\<lparr>ws := None\<rparr>
      in if \<not> stopped s4
         then let s5 = snd (setTimer ReconnectTimer (reconnectDelay s4) s4)
              in s5\<lparr>reconnectDelay := min (reconnectDelay s5 * 2) 30000\<rparr>
         else s4)"

text \<open>
  The three branches of \<open>ws.onmessage\<close> on the parsed data, for the transport \<open>k\<close> whose
  closure holds \<open>subscriptionId\<close>. \<open>parsedData?.x\<close> is \<open>opt_prop\<close>. The plain reads
  \<open>parsedData.result\<close> and \<open>parsedData.params\<close> happen only after a test that fails on
  \<open>null\<close> and \<open>undefined\<close>, where the plain read and \<open>opt_prop\<close> agree; the read of
  \<open>subscription\<close> from \<open>parsedData.params\<close> is unguarded and may throw. The callback is
  taken to return.
\<close>

definition set_subscriptionId :: "nat \<Rightarrow> jsval \<Rightarrow> state \<Rightarrow> state" where
  "set_subscriptionId k v s =
     s\<lparr>transports := (transports s)[k := (transports s ! k)\<lparr>subscriptionId := v\<rparr>]\<rparr>"

definition deliver :: "env \<Rightarrow> ResilientEventListenerArgs \<Rightarrow> jsval \<Rightarrow> state \<Rightarrow> fault option \<times> state" where
  "deliver ev a params s0 =
     (let logData = opt_prop params ''result'';
          s1 = emit (EParseLog logData) s0
      in case parseLog ev logData of
           Inl f \<Rightarrow> (Some f, s1)
         | Inr eventLog \<Rightarrow>
             let s2 = log_msg a Info ''Received event'' s1
             in (None, if has_callback a then emit (ECallback eventLog) s2 else s2))"

definition route :: "env \<Rightarrow> ResilientEventListenerArgs \<Rightarrow> nat \<Rightarrow> jsval \<Rightarrow> state \<Rightarrow> fault option \<times> state" where
  "route ev a k parsedData s0 =
     (if strict_eq (opt_prop parsedData ''id'') (JNum (request_id (EthSubscribe [] [])))
      then (None, log_msg a Info ''Subscription established''
                    (set_subscriptionId k (opt_prop parsedData ''result'') s0))
      else if strict_eq (opt_prop parsedData ''id'') (JNum (request_id NetListening))
              \<and> strict_eq (opt_prop parsedData ''result'') (JBool True)
      then (let s1 = log_msg a Debug ''Health check successful.'' s0
            in (None, case pingTimeout s1 of
                        None \<Rightarrow> s1
                      | Some t \<Rightarrow> (clearTimer t s1)\<lparr>pingTimeout := None\<rparr>))
      else if strict_eq (opt_prop parsedData ''method'') (JStr ''eth_subscription'')
      then (case get_prop (opt_prop parsedData ''params'') ''subscription'' of
              Inl f \<Rightarrow> (Some f, s0)
            | Inr sub \<Rightarrow>
                if strict_eq sub (subscriptionId (transports s0 ! k))
                then deliver ev a (opt_prop parsedData ''params'') s0
                else (None, s0))
      else (None, s0))"

text \<open>
  The data of a message event: a string, a Buffer (given by the text \<open>toString()\<close> returns)
  or anything else.
\<close>

datatype ws_data = DataString string | DataBuffer string | DataOther

definition onmessage :: "env \<Rightarrow> ResilientEventListenerArgs \<Rightarrow> nat \<Rightarrow> ws_data \<Rightarrow> state \<Rightarrow> fault option \<times> state" where
  "onmessage ev a k d s =
     (case d of
        DataOther \<Rightarrow> (None, log_msg a Warn ''Received unexpected data type from WebSocket.'' s)
      | DataString txt \<Rightarrow>
          (case JSON_parse ev txt of
             None \<Rightarrow> (None, log_msg a Error ''Failed to parse JSON from WebSocket message.'' s)
           | Some parsedData \<Rightarrow> route ev a k parsedData s)
      | DataBuffer txt \<Rightarrow>
          (case JSON_parse ev txt of
             None \<Rightarrow> (None, log_msg a Error ''Failed to parse JSON from WebSocket message.'' s)
           | Some parsedData \<Rightarrow> route ev a k parsedData s))"

text \<open>The callback of the pong-deadline timer.\<close>

definition pingDeadline :: "ResilientEventListenerArgs \<Rightarrow> state \<Rightarrow> state" where
  "pingDeadline a s =
     (case ws s of
        None \<Rightarrow> s
      | Some c \<Rightarrow>
          begin_closing c
            (emit (ETerminate c) (log_msg a Warn ''Ping timeout, terminating WebSocket connection.'' s)))"

text \<open>The callback of the keep-alive interval.\<close>

definition keepAliveTick :: "ResilientEventListenerArgs \<Rightarrow> state \<Rightarrow> state" where
  "keepAliveTick a s0 =
     (case ws s0 of
        None \<Rightarrow> s0
      | Some c \<Rightarrow>
          if ready_of s0 c = OPEN
          then let s1 = log_msg a Debug ''Performing health check'' s0;
                   s2 = emit (ESend c NetListening) s1;
                   tm = setTimer PongTimer (js_or (expectedPongBack a) DEFAULT_EXPECTED_PONG_BACK) s2
               in (snd tm)\<lparr>pingTimeout := Some (fst tm)\<rparr>
          else s0)"

text \<open>
  \<open>ws.onopen\<close> of transport \<open>k\<close>: resets the delay, sends the subscribe request on \<open>ws\<close>
  and arms the keep-alive interval.
\<close>

definition onopen :: "ResilientEventListenerArgs \<Rightarrow> nat \<Rightarrow> state \<Rightarrow> fault option \<times> state" where
  "onopen a k s0 =
     (let s1 = log_msg a Info ''WebSocket connection opened.'' s0;
          s2 = s1\<lparr>reconnectDelay := 1000\<rparr>
      in case ws_send (EthSubscribe (topicHash (transports s2 ! k)) (contractAddress a)) s2 of
           (Some f, s3) \<Rightarrow> (Some f, s3)
         | (None, s3) \<Rightarrow>
             let tm = setTimer KeepAliveTimer
                        (js_or (keepAliveCheckInterval a) DEFAULT_KEEP_ALIVE_CHECK_INTERVAL) s3
             in (None, (snd tm)\<lparr>keepAliveInterval := Some (fst tm)\<rparr>))"

text \<open>\<open>stop\<close>.\<close>

definition stop :: "ResilientEventListenerArgs \<Rightarrow> state \<Rightarrow> state" where
  "stop a s0 =
     (let s1 = log_msg a Info ''Stopping resilient event listener.'' s0;
          s2 = s1\<lparr>stopped := True\<rparr>;
          s3 = (case ws s2 of
                  None \<Rightarrow> s2
                | Some c \<Rightarrow> (begin_closing c (emit (EClose c) s2))\<lparr>ws := None\<rparr>);
          s4 = clear_if_set (keepAliveInterval s3) s3
      in clear_if_set (pingTimeout s4) s4)"

text \<open>The handler of \<open>unexpected-response\<close>: logs and stops.\<close>

definition on_unexpected_response :: "ResilientEventListenerArgs \<Rightarrow> state \<Rightarrow> state" where
  "on_unexpected_response a s = stop a (log_msg a Error ''Unexpected server response'' s)"

text \<open>\<open>resilientEventListener\<close>: the first \<open>connect\<close>, on the initial variables.\<close>

definition resilientEventListener :: "env \<Rightarrow> ResilientEventListenerArgs \<Rightarrow> fault option \<times> state" where
  "resilientEventListener ev a = connect ev a initial"

subsection \<open>Events\<close>

text \<open>
  What can happen to a listener, in any order: the library delivers open, close, error,
  message and unexpected-response to a transport, a timer fires, the caller calls
  \<open>stop()\<close>. The library sets the ready state before it delivers open and close. A
  transport without handlers ignores its events; a timer that is not armed does not fire; a
  timeout that fires is no longer armed, the interval stays armed.
\<close>

datatype event =
    EvOpen nat
  | EvClose nat
  | EvError nat
  | EvMessage nat ws_data
  | EvUnexpectedResponse nat
  | EvTimer nat
  | EvStop

definition has_handlers :: "state \<Rightarrow> nat \<Rightarrow> bool" where
  "has_handlers s k = (k < length (transports s) \<and> installed (transports s ! k))"

definition expire :: "nat \<Rightarrow> state \<Rightarrow> state" where
  "expire t s = s\<lparr>timers := filter (\<lambda>x. fst x \<noteq> t) (timers s)\<rparr>"

fun fire :: "env \<Rightarrow> ResilientEventListenerArgs \<Rightarrow> nat \<Rightarrow> timer_kind \<Rightarrow> state \<Rightarrow> fault option \<times> state" where
  "fire ev a t ReconnectTimer s = connect ev a (expire t s)"
| "fire ev a t KeepAliveTimer s = (None, keepAliveTick a s)"
| "fire ev a t PongTimer s = (None, pingDeadline a (expire t s))"

fun dispatch :: "env \<Rightarrow> ResilientEventListenerArgs \<Rightarrow> event \<Rightarrow> state \<Rightarrow> fault option \<times> state" where
  "dispatch ev a (EvOpen k) s =
     (if has_handlers s k then onopen a k (set_ready k OPEN s) else (None, set_ready k OPEN s))"
| "dispatch ev a (EvClose k) s =
     (if has_handlers s k then (None, onclose a (set_ready k CLOSED s))
      else (None, set_ready k CLOSED s))"
| "dispatch ev a (EvError k) s = (if has_handlers s k then (None, onerror a s) else (None, s))"
| "dispatch ev a (EvMessage k d) s =
     (if has_handlers s k then onmessage ev a k d s else (None, s))"
| "dispatch ev a (EvUnexpectedResponse k) s =
     (if has_handlers s k then (None, on_unexpected_response a s) else (None, s))"
| "dispatch ev a (EvTimer t) s =
     (case map_of (timers s) t of
        None \<Rightarrow> (None, s)
      | Some (kind, d) \<Rightarrow> fire ev a t kind s)"
| "dispatch ev a EvStop s = (None, stop a s)"

text \<open>A fault that leaves a handler is uncaught; the variables keep what was assigned.\<close>

definition step :: "env \<Rightarrow> ResilientEventListenerArgs \<Rightarrow> event \<Rightarrow> state \<Rightarrow> state" where
  "step ev a e s =
     (case dispatch ev a e s of
        (None, s') \<Rightarrow> s'
      | (Some f, s') \<Rightarrow> emit (EUncaught f) s')"

fun run :: "env \<Rightarrow> ResilientEventListenerArgs \<Rightarrow> event list \<Rightarrow> state \<Rightarrow> state" where
  "run ev a [] s = s"
| "run ev a (e # es) s = run ev a es (step ev a e s)"

subsection \<open>What is observed\<close>

definition created :: "state \<Rightarrow> nat list" where
  "created s = [k. ENewWebSocket k u \<leftarrow> effects s]"

definition armed :: "timer_kind \<Rightarrow> state \<Rightarrow> (nat \<times> int) list" where
  "armed kind s = [(t, d). ESetTimer t kind' d \<leftarrow> effects s, kind' = kind]"

definition pings :: "state \<Rightarrow> nat list" where
  "pings s = [k. ESend k NetListening \<leftarrow> effects s]"

definition decoded :: "state \<Rightarrow> jsval list" where
  "decoded s = [v. EParseLog v \<leftarrow> effects s]"

definition called_back :: "state \<Rightarrow> LogDescription option list" where
  "called_back s = [l. ECallback l \<leftarrow> effects s]"

definition pending :: "state \<Rightarrow> nat set" where
  "pending s = fst ` set (timers s)"

text \<open>The timers whose handles the listener holds in its two variables.\<close>

definition held :: "state \<Rightarrow> nat set" where
  "held s = set_option (keepAliveInterval s) \<union> set_option (pingTimeout s)"


subsection \<open>The backoff policy in the words of the specification\<close>

text \<open>
  \<open>delay(attempt) = min(base * 2^attempt, cap)\<close> with base 1000 and cap 30000, where
  the attempt count is the number of closes that scheduled a reconnect since the last open
  (or since the start): an open handler that runs resets it, a close handler that runs
  while the listener is not stopped adds one.
\<close>

definition spec_delay :: "nat \<Rightarrow> int" where
  "spec_delay n = min (1000 * 2 ^ n) 30000"

fun after_event :: "event \<Rightarrow> state \<Rightarrow> nat \<Rightarrow> nat" where
  "after_event (EvOpen k) s n = (if has_handlers s k then 0 else n)"
| "after_event (EvClose k) s n = (if has_handlers s k \<and> \<not> stopped s then Suc n else n)"
| "after_event e s n = n"

fun attempt_count :: "env \<Rightarrow> ResilientEventListenerArgs \<Rightarrow> event list \<Rightarrow> state \<Rightarrow> nat \<Rightarrow> nat" where
  "attempt_count ev a [] s n = n"
| "attempt_count ev a (e # es) s n = attempt_count ev a es (step ev a e s) (after_event e s n)"

subsection \<open>A sample listener\<close>

text \<open>
  Frames as the endpoint sends them, with the value \<open>JSON.parse\<close> gives for each; any
  other text is not parsed. \<open>resArgs\<close> is the configuration of src/index.ts (both
  keep-alive settings are 0 there; the project id of the URL is left out).
\<close>

definition frame_confirm_abc :: string where
  \<open>frame_confirm_abc = ''{"id":1,"result":"0xabc"}''\<close>

definition frame_confirm_def :: string where
  \<open>frame_confirm_def = ''{"id":1,"result":"0xdef"}''\<close>

definition frame_pong :: string where
  \<open>frame_pong = ''{"id":2,"result":true}''\<close>

definition frame_pong_false :: string where
  \<open>frame_pong_false = ''{"id":2,"result":false}''\<close>

definition frame_no_params :: string where
  \<open>frame_no_params = ''{"method":"eth_subscription"}''\<close>

definition frame_event_def :: string where
  \<open>frame_event_def =
     ''{"method":"eth_subscription","params":{"subscription":"0xdef","result":{}}}''\<close>

definition frame_event_no_sub :: string where
  \<open>frame_event_no_sub = ''{"method":"eth_subscription","params":{"result":{}}}''\<close>

definition frame_event_log :: string where
  \<open>frame_event_log =
     ''{"method":"eth_subscription","params":{"result":{"topics":["0xddf252ad"],"data":"0x"}}}''\<close>

definition sample_frames :: "(string \<times> jsval) list" where
  "sample_frames =
    [(frame_confirm_abc, JObj [(''id'', JNum 1), (''result'', JStr ''0xabc'')]),
     (frame_confirm_def, JObj [(''id'', JNum 1), (''result'', JStr ''0xdef'')]),
     (frame_pong, JObj [(''id'', JNum 2), (''result'', JBool True)]),
     (frame_pong_false, JObj [(''id'', JNum 2), (''result'', JBool False)]),
     (frame_no_params, JObj [(''method'', JStr ''eth_subscription'')]),
     (frame_event_def,
      JObj [(''method'', JStr ''eth_subscription''),
            (''params'', JObj [(''subscription'', JStr ''0xdef''), (''result'', JObj [])])]),
     (frame_event_no_sub,
      JObj [(''method'', JStr ''eth_subscription''), (''params'', JObj [(''result'', JObj [])])]),
     (frame_event_log,
      JObj [(''method'', JStr ''eth_subscription''),
            (''params'', JObj [(''result'',
               JObj [(''topics'', JArr [JStr ''0xddf252ad'']), (''data'', JStr ''0x'')])])])]"

definition sample_env :: env where
  "sample_env = \<lparr>JSON_parse = map_of sample_frames,
     contract_topicHash = (\<lambda>n. Inr ''0xddf252ad''),
     parseLog = (\<lambda>v. Inr (Some (LogDescription ''Transfer'' [])))\<rparr>"

text \<open>
  A decoder that, as \<open>parseLog\<close> does, reads the first topic of the log it is given: it
  throws a TypeError on a value without a list of topics, returns the Transfer event for
  the topic of the subscription and \<open>null\<close> for any other topic.
\<close>

definition transfer_parseLog :: "jsval \<Rightarrow> fault + LogDescription option" where
  "transfer_parseLog v =
     (case opt_prop v ''topics'' of
        JArr ts \<Rightarrow>
          (case ts of
             [] \<Rightarrow> Inl TypeError
           | t # rest \<Rightarrow>
               if strict_eq t (JStr ''0xddf252ad'')
               then Inr (Some (LogDescription ''Transfer'' []))
               else Inr None)
      | _ \<Rightarrow> Inl TypeError)"

definition decoding_env :: env where
  "decoding_env = sample_env\<lparr>parseLog := transfer_parseLog\<rparr>"

definition resArgs :: ResilientEventListenerArgs where
  "resArgs = \<lparr>rpcUrl = ''wss://mainnet.infura.io/ws/v3/'',
     contractAddress = ''0xdAC17F958D2ee523a2206206994597C13D831ec7'',
     eventName = ''Transfer'', has_log = True, has_callback = True,
     keepAliveCheckInterval = Some 0, expectedPongBack = Some 0\<rparr>"

definition listening :: state where
  "listening = snd (resilientEventListener sample_env resArgs)"

definition pinged :: state where
  "pinged = run sample_env resArgs [EvOpen 0, EvTimer 0] listening"

text \<open>
  The sample listener after its first keep-alive tick (\<open>pinged\<close>), after the open alone
  (\<open>opened\<close>), and after a close followed by the reconnect (\<open>reconnected\<close>).
\<close>

definition reconnected :: state where
  "reconnected = run sample_env resArgs [EvClose 0, EvTimer 0] listening"

definition opened :: state where
  "opened = run sample_env resArgs [EvOpen 0] listening"

section \<open>Properties\<close>


subsection \<open>What each operation leaves alone\<close>


lemmas basic_defs = emit_def log_msg_def setTimer_def clearTimer_def clear_if_set_def
  set_ready_def begin_closing_def expire_def set_subscriptionId_def

lemma stopped_basic [simp]:
  "stopped (emit e s) = stopped s"
  "stopped (log_msg a l m s) = stopped s"
  "stopped (snd (setTimer kind d s)) = stopped s"
  "stopped (clearTimer t s) = stopped s"
  "stopped (clear_if_set h s) = stopped s"
  "stopped (set_ready k r s) = stopped s"
  "stopped (begin_closing k s) = stopped s"
  "stopped (expire t s) = stopped s"
  "stopped (set_subscriptionId k v s) = stopped s"
  by (simp_all add: basic_defs split: option.splits)

lemma emit_fields [simp]:
  "ws (emit e s) = ws s"
  "pingTimeout (emit e s) = pingTimeout s"
  "keepAliveInterval (emit e s) = keepAliveInterval s"
  "reconnectDelay (emit e s) = reconnectDelay s"
  "transports (emit e s) = transports s"
  "timers (emit e s) = timers s"
  "next_timer (emit e s) = next_timer s"
  "effects (emit e s) = effects s @ [e]"
  by (simp_all add: emit_def)

lemma log_msg_fields [simp]:
  "ws (log_msg a l m s) = ws s"
  "pingTimeout (log_msg a l m s) = pingTimeout s"
  "keepAliveInterval (log_msg a l m s) = keepAliveInterval s"
  "reconnectDelay (log_msg a l m s) = reconnectDelay s"
  "transports (log_msg a l m s) = transports s"
  "timers (log_msg a l m s) = timers s"
  "next_timer (log_msg a l m s) = next_timer s"
  by (simp_all add: log_msg_def)

lemma created_basic [simp]:
  "created (emit e s) = created s @ (case e of ENewWebSocket k u \<Rightarrow> [k] | _ \<Rightarrow> [])"
  "created (log_msg a l m s) = created s"
  "created (snd (setTimer kind d s)) = created s"
  "created (clearTimer t s) = created s"
  "created (clear_if_set h s) = created s"
  "created (set_ready k r s) = created s"
  "created (begin_closing k s) = created s"
  "created (expire t s) = created s"
  "created (set_subscriptionId k v s) = created s"
  by (simp_all add: created_def basic_defs split: option.splits effect.splits)

lemma created_upd [simp]:
  "created (s\<lparr>ws := w\<rparr>) = created s"
  "created (s\<lparr>pingTimeout := p\<rparr>) = created s"
  "created (s\<lparr>keepAliveInterval := p\<rparr>) = created s"
  "created (s\<lparr>stopped := b\<rparr>) = created s"
  "created (s\<lparr>reconnectDelay := d\<rparr>) = created s"
  "created (s\<lparr>transports := ts\<rparr>) = created s"
  by (simp_all add: created_def)

lemma stopped_connect: "stopped (snd (connect ev a s)) = stopped s"
  by (simp add: connect_def Let_def split: sum.splits)

lemma created_connect:
  "created (snd (connect ev a s)) = (if stopped s then created s else created s @ [length (transports s)])"
  by (simp add: connect_def Let_def split: sum.splits)

lemma stopped_onclose: "stopped (onclose a s) = stopped s"
  by (simp add: onclose_def Let_def)

lemma created_onclose: "created (onclose a s) = created s"
  by (simp add: onclose_def Let_def)

lemma stopped_route: "stopped (snd (route ev a k pd s)) = stopped s"
  by (simp add: route_def deliver_def Let_def split: sum.splits option.splits)

lemma created_route: "created (snd (route ev a k pd s)) = created s"
  by (simp add: route_def deliver_def Let_def split: sum.splits option.splits)

lemma stopped_onmessage: "stopped (snd (onmessage ev a k d s)) = stopped s"
  by (simp add: onmessage_def stopped_route split: ws_data.splits option.splits)

lemma created_onmessage: "created (snd (onmessage ev a k d s)) = created s"
  by (simp add: onmessage_def created_route split: ws_data.splits option.splits)

lemma stopped_pingDeadline: "stopped (pingDeadline a s) = stopped s"
  by (simp add: pingDeadline_def split: option.splits)

lemma created_pingDeadline: "created (pingDeadline a s) = created s"
  by (simp add: pingDeadline_def split: option.splits)

lemma stopped_keepAliveTick: "stopped (keepAliveTick a s) = stopped s"
  by (simp add: keepAliveTick_def Let_def split: option.splits)

lemma created_keepAliveTick: "created (keepAliveTick a s) = created s"
  by (simp add: keepAliveTick_def Let_def split: option.splits)

lemma stopped_onopen: "stopped (snd (onopen a k s)) = stopped s"
  by (simp add: onopen_def ws_send_def Let_def split: option.splits ready_state.splits prod.splits)

lemma created_onopen: "created (snd (onopen a k s)) = created s"
  by (simp add: onopen_def ws_send_def Let_def split: option.splits ready_state.splits prod.splits)

lemma stopped_stop: "stopped (stop a s)"
  by (simp add: stop_def Let_def split: option.splits)

lemma created_stop: "created (stop a s) = created s"
  by (simp add: stop_def Let_def split: option.splits)

lemmas stopped_handlers = stopped_connect stopped_onclose stopped_onmessage stopped_pingDeadline
  stopped_keepAliveTick stopped_onopen

lemmas created_handlers = created_connect created_onclose created_onmessage created_pingDeadline
  created_keepAliveTick created_onopen created_stop

lemma stopped_dispatch: "stopped s \<Longrightarrow> stopped (snd (dispatch ev a e s))"
proof (cases e)
  case (EvTimer t)
  show ?thesis if "stopped s"
  proof (cases "map_of (timers s) t")
    case None
    with that EvTimer show ?thesis by simp
  next
    case (Some kd)
    obtain kind d where kd: "kd = (kind, d)" by (cases kd)
    with that EvTimer Some show ?thesis
      by (cases kind) (simp_all add: stopped_handlers)
  qed
qed (simp_all add: stopped_handlers stopped_stop onerror_def on_unexpected_response_def)

lemma created_dispatch: "stopped s \<Longrightarrow> created (snd (dispatch ev a e s)) = created s"
proof (cases e)
  case (EvTimer t)
  show ?thesis if "stopped s"
  proof (cases "map_of (timers s) t")
    case None
    with that EvTimer show ?thesis by simp
  next
    case (Some kd)
    obtain kind d where kd: "kd = (kind, d)" by (cases kd)
    with that EvTimer Some show ?thesis
      by (cases kind) (simp_all add: created_handlers)
  qed
qed (simp_all add: created_handlers onerror_def on_unexpected_response_def)

lemma stopped_step: "stopped s \<Longrightarrow> stopped (step ev a e s)"
  using stopped_dispatch [of s ev a e]
  by (cases "dispatch ev a e s") (auto simp: step_def split: option.splits)

lemma created_step: "stopped s \<Longrightarrow> created (step ev a e s) = created s"
  using created_dispatch [of s ev a e]
  by (cases "dispatch ev a e s") (auto simp: step_def split: option.splits)

lemma stopped_run: "stopped s \<Longrightarrow> stopped (run ev a es s)"
  by (induction es arbitrary: s) (simp_all add: stopped_step)

lemma created_run: "stopped s \<Longrightarrow> created (run ev a es s) = created s"
  by (induction es arbitrary: s) (simp_all add: stopped_step created_step)

lemma more_fields [simp]:
  "reconnectDelay (snd (setTimer kind d s)) = reconnectDelay s"
  "reconnectDelay (clearTimer t s) = reconnectDelay s"
  "reconnectDelay (clear_if_set h s) = reconnectDelay s"
  "reconnectDelay (set_ready k r s) = reconnectDelay s"
  "reconnectDelay (begin_closing k s) = reconnectDelay s"
  "reconnectDelay (expire t s) = reconnectDelay s"
  "reconnectDelay (set_subscriptionId k v s) = reconnectDelay s"
  "next_timer (clearTimer t s) = next_timer s"
  "next_timer (clear_if_set h s) = next_timer s"
  "next_timer (set_ready k r s) = next_timer s"
  "keepAliveInterval (clearTimer t s) = keepAliveInterval s"
  "keepAliveInterval (clear_if_set h s) = keepAliveInterval s"
  "pingTimeout (clearTimer t s) = pingTimeout s"
  "pingTimeout (clear_if_set h s) = pingTimeout s"
  "pingTimeout (begin_closing k s) = pingTimeout s"
  "keepAliveInterval (begin_closing k s) = keepAliveInterval s"
  "ws (set_ready k r s) = ws s"
  "ws (clearTimer t s) = ws s"
  "ws (clear_if_set h s) = ws s"
  by (simp_all add: basic_defs split: option.splits)

lemma pending_basic [simp]:
  "pending (emit e s) = pending s"
  "pending (log_msg a l m s) = pending s"
  "pending (clearTimer t s) = pending s - {t}"
  "pending (clear_if_set h s) = pending s - set_option h"
  "pending (snd (setTimer kind d s)) = insert (next_timer s) (pending s)"
  "pending (set_ready k r s) = pending s"
  "pending (begin_closing k s) = pending s"
  "pending (s\<lparr>ws := w\<rparr>) = pending s"
  "pending (s\<lparr>stopped := b\<rparr>) = pending s"
  "pending (s\<lparr>reconnectDelay := dl\<rparr>) = pending s"
  by (force simp: pending_def basic_defs split: option.splits)+

lemma armed_basic [simp]:
  "armed kind (emit e s) = armed kind s @
     (case e of ESetTimer t kind' d \<Rightarrow> if kind' = kind then [(t, d)] else [] | _ \<Rightarrow> [])"
  "armed kind (log_msg a l m s) = armed kind s"
  "armed kind (snd (setTimer kind' d s)) =
     armed kind s @ (if kind' = kind then [(next_timer s, d)] else [])"
  "armed kind (clearTimer t s) = armed kind s"
  "armed kind (clear_if_set h s) = armed kind s"
  "armed kind (set_ready k r s) = armed kind s"
  "armed kind (begin_closing k s) = armed kind s"
  "armed kind (expire t s) = armed kind s"
  "armed kind (set_subscriptionId k v s) = armed kind s"
  by (simp_all add: armed_def basic_defs split: option.splits effect.splits)

lemma armed_upd [simp]:
  "armed kind (s\<lparr>ws := w\<rparr>) = armed kind s"
  "armed kind (s\<lparr>pingTimeout := p\<rparr>) = armed kind s"
  "armed kind (s\<lparr>keepAliveInterval := p\<rparr>) = armed kind s"
  "armed kind (s\<lparr>stopped := b\<rparr>) = armed kind s"
  "armed kind (s\<lparr>reconnectDelay := d\<rparr>) = armed kind s"
  "armed kind (s\<lparr>transports := ts\<rparr>) = armed kind s"
  by (simp_all add: armed_def)

subsection \<open>Stopping is final\<close>

text \<open>
  C2. After \<open>stop()\<close> has returned no transport is created again: whatever events
  follow (timers firing, close events on abandoned transports, further calls of \<open>stop()\<close>,
  or anything else), the transports created are those created before the call.
\<close>

theorem stop_is_final: "created (run ev a es (stop a s)) = created s"
  by (simp add: created_run stopped_stop created_stop)

subsection \<open>Evaluating the sample listener\<close>

lemmas frame_defs = frame_confirm_abc_def frame_confirm_def_def frame_pong_def
  frame_pong_false_def frame_no_params_def frame_event_def_def frame_event_no_sub_def
  frame_event_log_def

lemmas eval_defs = resilientEventListener_def sample_env_def resArgs_def
  sample_frames_def frame_defs initial_def connect_def onerror_def onclose_def deliver_def
  route_def onmessage_def pingDeadline_def keepAliveTick_def onopen_def stop_def
  on_unexpected_response_def ws_send_def basic_defs step_def has_handlers_def ready_of_def
  opt_prop_def js_or_def DEFAULT_EXPECTED_PONG_BACK_def DEFAULT_KEEP_ALIVE_CHECK_INTERVAL_def
  Let_def

lemma parse_sample:
  "JSON_parse sample_env frame_confirm_abc = Some (JObj [(''id'', JNum 1), (''result'', JStr ''0xabc'')])"
  "JSON_parse sample_env frame_confirm_def = Some (JObj [(''id'', JNum 1), (''result'', JStr ''0xdef'')])"
  "JSON_parse sample_env frame_pong = Some (JObj [(''id'', JNum 2), (''result'', JBool True)])"
  "JSON_parse sample_env frame_pong_false = Some (JObj [(''id'', JNum 2), (''result'', JBool False)])"
  "JSON_parse sample_env frame_no_params = Some (JObj [(''method'', JStr ''eth_subscription'')])"
  "JSON_parse sample_env frame_event_def =
     Some (JObj [(''method'', JStr ''eth_subscription''),
            (''params'', JObj [(''subscription'', JStr ''0xdef''), (''result'', JObj [])])])"
  "JSON_parse sample_env frame_event_no_sub =
     Some (JObj [(''method'', JStr ''eth_subscription''), (''params'', JObj [(''result'', JObj [])])])"
  by (simp_all add: sample_env_def sample_frames_def frame_defs)

lemma listening_eq:
  "listening = \<lparr>ws = Some 0, pingTimeout = None, keepAliveInterval = None, stopped = False,
     reconnectDelay = 1000,
     transports = [\<lparr>readyState = CONNECTING, installed = True, topicHash = ''0xddf252ad'',
                    subscriptionId = JUndefined\<rparr>],
     timers = [], next_timer = 0,
     effects = [ELog Info ''Connecting to WebSocket'',
                ENewWebSocket 0 ''wss://mainnet.infura.io/ws/v3/'',
                ELog Debug ''Subscribing to event listener with topic hash'']\<rparr>"
  by (simp add: listening_def eval_defs)

lemma pinged_eq:
  "pinged = \<lparr>ws = Some 0, pingTimeout = Some 1, keepAliveInterval = Some 0, stopped = False,
     reconnectDelay = 1000,
     transports = [\<lparr>readyState = OPEN, installed = True, topicHash = ''0xddf252ad'',
                    subscriptionId = JUndefined\<rparr>],
     timers = [(0, KeepAliveTimer, 60000), (1, PongTimer, 15000)], next_timer = 2,
     effects = [ELog Info ''Connecting to WebSocket'',
                ENewWebSocket 0 ''wss://mainnet.infura.io/ws/v3/'',
                ELog Debug ''Subscribing to event listener with topic hash'',
                ELog Info ''WebSocket connection opened.'',
                ESend 0 (EthSubscribe ''0xddf252ad'' ''0xdAC17F958D2ee523a2206206994597C13D831ec7''),
                ESetTimer 0 KeepAliveTimer 60000,
                ELog Debug ''Performing health check'',
                ESend 0 NetListening,
                ESetTimer 1 PongTimer 15000]\<rparr>"
  by (simp add: pinged_def listening_eq) (simp add: eval_defs)

lemma opened_eq:
  "opened = \<lparr>ws = Some 0, pingTimeout = None, keepAliveInterval = Some 0, stopped = False,
     reconnectDelay = 1000,
     transports = [\<lparr>readyState = OPEN, installed = True, topicHash = ''0xddf252ad'',
                    subscriptionId = JUndefined\<rparr>],
     timers = [(0, KeepAliveTimer, 60000)], next_timer = 1,
     effects = [ELog Info ''Connecting to WebSocket'',
                ENewWebSocket 0 ''wss://mainnet.infura.io/ws/v3/'',
                ELog Debug ''Subscribing to event listener with topic hash'',
                ELog Info ''WebSocket connection opened.'',
                ESend 0 (EthSubscribe ''0xddf252ad'' ''0xdAC17F958D2ee523a2206206994597C13D831ec7''),
                ESetTimer 0 KeepAliveTimer 60000]\<rparr>"
  by (simp add: opened_def listening_eq) (simp add: eval_defs)

lemma reconnected_eq:
  "reconnected = \<lparr>ws = Some 1, pingTimeout = None, keepAliveInterval = None, stopped = False,
     reconnectDelay = 2000,
     transports = [\<lparr>readyState = CLOSED, installed = True, topicHash = ''0xddf252ad'',
                    subscriptionId = JUndefined\<rparr>,
                   \<lparr>readyState = CONNECTING, installed = True, topicHash = ''0xddf252ad'',
                    subscriptionId = JUndefined\<rparr>],
     timers = [], next_timer = 1,
     effects = [ELog Info ''Connecting to WebSocket'',
                ENewWebSocket 0 ''wss://mainnet.infura.io/ws/v3/'',
                ELog Debug ''Subscribing to event listener with topic hash'',
                ELog Info ''WebSocket connection closed.'',
                ESetTimer 0 ReconnectTimer 1000,
                ELog Info ''Connecting to WebSocket'',
                ENewWebSocket 1 ''wss://mainnet.infura.io/ws/v3/'',
                ELog Debug ''Subscribing to event listener with topic hash'']\<rparr>"
  by (simp add: reconnected_def listening_eq) (simp add: eval_defs)

subsection \<open>Inbound frames\<close>

lemma strict_eq_prim [simp]:
  "strict_eq x (JNum r) = (x = JNum r)"
  "strict_eq x (JStr t) = (x = JStr t)"
  "strict_eq x (JBool b) = (x = JBool b)"
  "strict_eq x JUndefined = (x = JUndefined)"
  by (cases x; simp)+

lemma effects_basic [simp]:
  "effects (log_msg a l m s) = effects s @ (if has_log a then [ELog l m] else [])"
  "effects (snd (setTimer kind d s)) = effects s @ [ESetTimer (next_timer s) kind d]"
  "effects (clearTimer t s) = effects s @ [EClearTimer t]"
  "effects (clear_if_set h s) = effects s @ (case h of None \<Rightarrow> [] | Some t \<Rightarrow> [EClearTimer t])"
  "effects (set_ready k r s) = effects s"
  "effects (begin_closing k s) = effects s"
  "effects (expire t s) = effects s"
  "effects (set_subscriptionId k v s) = effects s"
  by (simp_all add: basic_defs split: option.splits)

lemma onmessage_parsed:
  assumes "JSON_parse ev frame = Some pd" and "d = DataString frame \<or> d = DataBuffer frame"
  shows "onmessage ev a k d s = route ev a k pd s"
  using assms by (auto simp: onmessage_def)

text \<open>
  C4. The claim: a frame that does not parse, or that has none of the three recognised
  shapes, raises no uncaught fault and changes no subscription state. The handler does not
  keep it: the frame \<open>{"method":"eth_subscription"}\<close> has the method of a notification
  and no \<open>params\<close>, so reading \<open>parsedData.params.subscription\<close> throws a TypeError that
  nothing catches, in every state and for every configuration.
\<close>

theorem notification_without_params_faults:
  "fst (onmessage sample_env a k (DataString frame_no_params) s) = Some TypeError"
  by (simp add: onmessage_def parse_sample route_def opt_prop_def)

text \<open>
  C5. A notification (method \<open>eth_subscription\<close>) whose subscription identifier is not
  strictly equal to the subscription id of the session is dropped: the decoder is not
  called, the callback is not called, and the handler returns normally.
\<close>

theorem stale_notification_dropped:
  assumes "JSON_parse ev frame = Some pd"
    and "d = DataString frame \<or> d = DataBuffer frame"
    and "strict_eq (opt_prop pd ''method'') (JStr ''eth_subscription'')"
    and "get_prop (opt_prop pd ''params'') ''subscription'' = Inr sub"
    and "\<not> strict_eq sub (subscriptionId (transports s ! k))"
  shows "decoded (snd (onmessage ev a k d s)) = decoded s
       \<and> called_back (snd (onmessage ev a k d s)) = called_back s
       \<and> fst (onmessage ev a k d s) = None"
  using assms(3-5) unfolding onmessage_parsed [OF assms(1,2)]
  by (simp add: route_def Let_def decoded_def called_back_def split: option.splits)

theorem stale_notification_dropped_witness:
  "decoded (snd (onmessage sample_env resArgs 0 (DataString frame_event_def) listening))
     = decoded listening
   \<and> called_back (snd (onmessage sample_env resArgs 0 (DataString frame_event_def) listening))
     = called_back listening
   \<and> fst (onmessage sample_env resArgs 0 (DataString frame_event_def) listening) = None"
  using stale_notification_dropped [where ev = sample_env and frame = frame_event_def
      and pd = "JObj [(''method'', JStr ''eth_subscription''),
            (''params'', JObj [(''subscription'', JStr ''0xdef''), (''result'', JObj [])])]"
      and d = "DataString frame_event_def" and sub = "JStr ''0xdef''"
      and s = listening and k = 0 and a = resArgs]
  by (simp add: parse_sample opt_prop_def listening_eq)

text \<open>
  C6, as claimed: once the subscription id is set by a first confirmation, a duplicate
  confirmation leaves it unchanged. It does not: a second response with id 1 and another
  result replaces the id.
\<close>

theorem duplicate_confirmation_overwrites:
  "subscriptionId (transports (run sample_env resArgs
       [EvMessage 0 (DataString frame_confirm_abc),
        EvMessage 0 (DataString frame_confirm_def)] listening) ! 0)
   \<noteq> subscriptionId (transports (run sample_env resArgs
       [EvMessage 0 (DataString frame_confirm_abc)] listening) ! 0)"
  by (simp add: listening_eq step_def has_handlers_def onmessage_def parse_sample route_def
      opt_prop_def basic_defs)

text \<open>
  C6, amended: every response whose id is 1 takes effect; the subscription id of the
  session becomes the result of that response, whatever it was before, so the last
  confirmation wins (and a duplicate with the same result changes nothing).
\<close>

theorem confirmation_sets_subscription:
  assumes "JSON_parse ev frame = Some pd"
    and "d = DataString frame \<or> d = DataBuffer frame"
    and "strict_eq (opt_prop pd ''id'') (JNum 1)"
    and "k < length (transports s)"
  shows "subscriptionId (transports (snd (onmessage ev a k d s)) ! k) = opt_prop pd ''result''
       \<and> fst (onmessage ev a k d s) = None"
  using assms(3,4) unfolding onmessage_parsed [OF assms(1,2)]
  by (simp add: route_def set_subscriptionId_def log_msg_def emit_def)

theorem confirmation_sets_subscription_witness:
  "subscriptionId (transports (snd (onmessage sample_env resArgs 0
      (DataString frame_confirm_def) listening)) ! 0) = JStr ''0xdef''
   \<and> fst (onmessage sample_env resArgs 0 (DataString frame_confirm_def) listening) = None"
  using confirmation_sets_subscription [where ev = sample_env and frame = frame_confirm_def
      and pd = "JObj [(''id'', JNum 1), (''result'', JStr ''0xdef'')]"
      and d = "DataString frame_confirm_def" and s = listening and k = 0 and a = resArgs]
  by (simp add: parse_sample opt_prop_def listening_eq)

lemma parse_decoding:
  "JSON_parse decoding_env frame_event_no_sub =
     Some (JObj [(''method'', JStr ''eth_subscription''), (''params'', JObj [(''result'', JObj [])])])"
  "JSON_parse decoding_env frame_event_log =
     Some (JObj [(''method'', JStr ''eth_subscription''),
            (''params'', JObj [(''result'',
               JObj [(''topics'', JArr [JStr ''0xddf252ad'']), (''data'', JStr ''0x'')])])])"
  by (simp_all add: decoding_env_def sample_env_def sample_frames_def frame_defs)

text \<open>
  C9, as claimed: before any confirmation, a notification with method
  \<open>eth_subscription\<close> whose \<open>params\<close> has no \<open>subscription\<close> is passed to the decoder and
  the consumer callback is invoked. The first half holds, the second does not: the frame
  \<open>{"method":"eth_subscription","params":{"result":{}}}\<close> matches and its \<open>params.result\<close>
  reaches the decoder, the decoder throws on a log without topics, the fault leaves the
  handler and the callback, though configured, is never called.
\<close>

theorem unconfirmed_notification_decoder_throws:
  "has_callback resArgs
   \<and> decoded (snd (onmessage decoding_env resArgs 0 (DataString frame_event_no_sub) listening))
       = [JObj []]
   \<and> called_back (snd (onmessage decoding_env resArgs 0 (DataString frame_event_no_sub)
        listening)) = []
   \<and> fst (onmessage decoding_env resArgs 0 (DataString frame_event_no_sub) listening)
       = Some TypeError"
proof -
  let ?pd = "JObj [(''method'', JStr ''eth_subscription''),
                   (''params'', JObj [(''result'', JObj [])])]"
  have routed: "onmessage decoding_env resArgs 0 (DataString frame_event_no_sub) listening
                  = route decoding_env resArgs 0 ?pd listening"
    by (simp add: onmessage_parsed [OF parse_decoding(1)])
  have decoder: "parseLog decoding_env (JObj []) = Inl TypeError"
    by (simp add: decoding_env_def transfer_parseLog_def opt_prop_def)
  have "has_callback resArgs"
    by (simp add: resArgs_def)
  then show ?thesis
    unfolding routed
    by (simp add: route_def deliver_def opt_prop_def listening_eq decoder decoded_def
        called_back_def emit_def)
qed

text \<open>
  C9, amended: before any confirmation (the subscription id is still \<open>undefined\<close>), a
  notification with method \<open>eth_subscription\<close> whose \<open>params\<close> has no \<open>subscription\<close>
  matches, and its \<open>params.result\<close> is passed to the decoder. The callback is called, with
  what the decoder returned, exactly when the decoder returns and a callback is configured;
  when the decoder throws, its fault leaves the handler and no callback is made. A
  notification is a frame that is neither a response with id 1 nor a successful pong.
\<close>

theorem unconfirmed_notification_delivered:
  assumes "JSON_parse ev frame = Some pd"
    and "d = DataString frame \<or> d = DataBuffer frame"
    and "\<not> strict_eq (opt_prop pd ''id'') (JNum 1)"
    and "\<not> (strict_eq (opt_prop pd ''id'') (JNum 2)
            \<and> strict_eq (opt_prop pd ''result'') (JBool True))"
    and "strict_eq (opt_prop pd ''method'') (JStr ''eth_subscription'')"
    and "get_prop (opt_prop pd ''params'') ''subscription'' = Inr JUndefined"
    and "subscriptionId (transports s ! k) = JUndefined"
  shows "decoded (snd (onmessage ev a k d s))
           = decoded s @ [opt_prop (opt_prop pd ''params'') ''result'']
       \<and> (case parseLog ev (opt_prop (opt_prop pd ''params'') ''result'') of
            Inr l \<Rightarrow>
              called_back (snd (onmessage ev a k d s))
                = called_back s @ (if has_callback a then [l] else [])
              \<and> fst (onmessage ev a k d s) = None
          | Inl f \<Rightarrow>
              called_back (snd (onmessage ev a k d s)) = called_back s
              \<and> fst (onmessage ev a k d s) = Some f)"
  using assms(3-7) unfolding onmessage_parsed [OF assms(1,2)]
  by (auto simp: route_def deliver_def Let_def decoded_def called_back_def split: sum.splits)

theorem unconfirmed_notification_delivered_witness:
  "decoded (snd (onmessage decoding_env resArgs 0 (DataString frame_event_log) listening))
     = [JObj [(''topics'', JArr [JStr ''0xddf252ad'']), (''data'', JStr ''0x'')]]
   \<and> called_back (snd (onmessage decoding_env resArgs 0 (DataString frame_event_log)
        listening)) = [Some (LogDescription ''Transfer'' [])]
   \<and> fst (onmessage decoding_env resArgs 0 (DataString frame_event_log) listening) = None"
proof -
  let ?log = "JObj [(''topics'', JArr [JStr ''0xddf252ad'']), (''data'', JStr ''0x'')]"
  let ?pd = "JObj [(''method'', JStr ''eth_subscription''),
                   (''params'', JObj [(''result'', ?log)])]"
  have parsed: "JSON_parse decoding_env frame_event_log = Some ?pd"
    by (simp add: parse_decoding)
  have decoder: "parseLog decoding_env (opt_prop (opt_prop ?pd ''params'') ''result'')
                   = Inr (Some (LogDescription ''Transfer'' []))"
    by (simp add: decoding_env_def transfer_parseLog_def opt_prop_def)
  have "has_callback resArgs" "decoded listening = []" "called_back listening = []"
    by (simp_all add: resArgs_def listening_eq decoded_def called_back_def)
  with decoder
    unconfirmed_notification_delivered [where ev = decoding_env and frame = frame_event_log
        and pd = ?pd and d = "DataString frame_event_log" and s = listening and k = 0
        and a = resArgs, OF parsed]
  show ?thesis
    by (simp add: opt_prop_def listening_eq)
qed

text \<open>
  C10. A response with id 2 clears the pending pong-deadline timer exactly when its result
  is \<open>true\<close>: then the timer is no longer armed and \<open>pingTimeout\<close> is \<open>null\<close>, and
  nothing else changes; with any other result the timer stays armed and no variable, timer
  or transport changes.
\<close>

theorem pong_clears_deadline:
  assumes "JSON_parse ev frame = Some pd"
    and "d = DataString frame \<or> d = DataBuffer frame"
    and "strict_eq (opt_prop pd ''id'') (JNum 2)"
    and "pingTimeout s = Some t"
    and "t \<in> pending s"
  shows "(t \<notin> pending (snd (onmessage ev a k d s)))
           = strict_eq (opt_prop pd ''result'') (JBool True)
       \<and> (if strict_eq (opt_prop pd ''result'') (JBool True)
          then (snd (onmessage ev a k d s))\<lparr>effects := effects s\<rparr>
                 = s\<lparr>pingTimeout := None, timers := filter (\<lambda>x. fst x \<noteq> t) (timers s)\<rparr>
          else (snd (onmessage ev a k d s))\<lparr>effects := effects s\<rparr> = s)"
  using assms(3-5) unfolding onmessage_parsed [OF assms(1,2)]
  by (auto simp: route_def deliver_def Let_def pending_def clearTimer_def emit_def log_msg_def
      split: sum.splits)

theorem pong_clears_deadline_witness:
  "1 \<notin> pending (snd (onmessage sample_env resArgs 0 (DataString frame_pong) pinged))
   \<and> (snd (onmessage sample_env resArgs 0 (DataString frame_pong) pinged))
        \<lparr>effects := effects pinged\<rparr>
      = pinged\<lparr>pingTimeout := None, timers := [(0, KeepAliveTimer, 60000)]\<rparr>
   \<and> 1 \<in> pending (snd (onmessage sample_env resArgs 0 (DataString frame_pong_false) pinged))
   \<and> (snd (onmessage sample_env resArgs 0 (DataString frame_pong_false) pinged))
        \<lparr>effects := effects pinged\<rparr> = pinged"
  using pong_clears_deadline [where ev = sample_env and frame = frame_pong
      and pd = "JObj [(''id'', JNum 2), (''result'', JBool True)]"
      and d = "DataString frame_pong" and s = pinged and t = 1 and k = 0 and a = resArgs]
    pong_clears_deadline [where ev = sample_env and frame = frame_pong_false
      and pd = "JObj [(''id'', JNum 2), (''result'', JBool False)]"
      and d = "DataString frame_pong_false" and s = pinged and t = 1 and k = 0 and a = resArgs]
  by (simp add: parse_sample opt_prop_def pinged_eq pending_def)

subsection \<open>Keep-alive configuration\<close>

lemma pings_basic [simp]:
  "pings (emit e s) = pings s @ (case e of ESend k NetListening \<Rightarrow> [k] | _ \<Rightarrow> [])"
  "pings (log_msg a l m s) = pings s"
  "pings (snd (setTimer kind d s)) = pings s"
  "pings (s\<lparr>pingTimeout := p\<rparr>) = pings s"
  by (simp_all add: pings_def basic_defs split: effect.splits request.splits)

lemma ready_of_basic [simp]:
  "ready_of (emit e s) k = ready_of s k"
  "ready_of (log_msg a l m s) k = ready_of s k"
  "ready_of (s\<lparr>reconnectDelay := dl\<rparr>) k = ready_of s k"
  by (simp_all add: ready_of_def)

lemma ws_send_open:
  "ws s = Some c \<Longrightarrow> ready_of s c = OPEN \<Longrightarrow> ws_send r s = (None, emit (ESend c r) s)"
  by (simp add: ws_send_def)

text \<open>
  C1, as claimed: with \<open>keepAliveCheckInterval\<close> set to 0 no ping is ever sent and no
  pong-deadline timer is ever armed. It is not so: under the configuration of src/index.ts
  (both settings 0) the open handler arms the interval with 60000 ms, and its first tick
  sends the ping and arms the pong-deadline timer with 15000 ms.
\<close>

theorem zero_interval_still_pings:
  "keepAliveCheckInterval resArgs = Some 0
   \<and> armed KeepAliveTimer pinged = [(0, 60000)]
   \<and> pings pinged = [0]
   \<and> armed PongTimer pinged = [(1, 15000)]"
  by (simp add: pinged_eq armed_def pings_def resArgs_def)

text \<open>
  C1, amended: \<open>keepAliveCheckInterval\<close> unset or 0 gives the default 60000 ms and
  \<open>expectedPongBack\<close> unset or 0 gives the default 15000 ms; any other value is used as it
  is. Zero disables nothing: whenever the open handler gets past its send it arms the
  keep-alive interval with that delay, and every tick on an open transport sends a ping and
  arms the pong-deadline timer with that delay.
\<close>

theorem keep_alive_delays:
  assumes "ws s = Some c" and "ready_of s c = OPEN"
    and "ws s' = Some c'" and "ready_of s' c' = OPEN"
  shows "armed KeepAliveTimer (snd (onopen a k s))
           = armed KeepAliveTimer s @
             [(next_timer s, case keepAliveCheckInterval a of
                               None \<Rightarrow> 60000 | Some v \<Rightarrow> if v = 0 then 60000 else v)]
       \<and> armed PongTimer (keepAliveTick a s')
           = armed PongTimer s' @
             [(next_timer s', case expectedPongBack a of
                                None \<Rightarrow> 15000 | Some v \<Rightarrow> if v = 0 then 15000 else v)]
       \<and> pings (keepAliveTick a s') = pings s' @ [c']"
  using assms
  by (simp add: onopen_def keepAliveTick_def ws_send_open Let_def js_or_def
      DEFAULT_KEEP_ALIVE_CHECK_INTERVAL_def DEFAULT_EXPECTED_PONG_BACK_def
      split: option.splits)

theorem keep_alive_delays_witness:
  "armed KeepAliveTimer (snd (onopen resArgs 0 (set_ready 0 OPEN listening))) = [(0, 60000)]
   \<and> armed PongTimer (keepAliveTick resArgs opened) = [(1, 15000)]
   \<and> pings (keepAliveTick resArgs opened) = [0]"
proof -
  have "ws (set_ready 0 OPEN listening) = Some 0"
    "ready_of (set_ready 0 OPEN listening) 0 = OPEN"
    "ws opened = Some 0" "ready_of opened 0 = OPEN"
    by (simp_all add: listening_eq opened_eq set_ready_def ready_of_def)
  from keep_alive_delays [OF this, of resArgs 0]
  show ?thesis
    by (simp add: listening_eq opened_eq set_ready_def armed_def pings_def resArgs_def)
qed

subsection \<open>Backoff\<close>

lemma step_fields:
  "reconnectDelay (step ev a e s) = reconnectDelay (snd (dispatch ev a e s))"
  "armed kind (step ev a e s) = armed kind (snd (dispatch ev a e s))"
  "stopped (step ev a e s) = stopped (snd (dispatch ev a e s))"
  by (cases "dispatch ev a e s"; simp add: step_def split: option.splits)+


lemma armed_reconnect_onclose:
  "armed ReconnectTimer (onclose a s)
     = armed ReconnectTimer s @ (if stopped s then [] else [(next_timer s, reconnectDelay s)])"
  by (simp add: onclose_def Let_def)












lemma spec_delay_Suc: "min (spec_delay n * 2) 30000 = spec_delay (Suc n)"
  by (simp add: spec_delay_def min_def)

lemma reconnectDelay_connect: "reconnectDelay (snd (connect ev a s)) = reconnectDelay s"
  by (simp add: connect_def Let_def split: sum.splits)

lemma reconnectDelay_onclose:
  "reconnectDelay (onclose a s)
     = (if stopped s then reconnectDelay s else min (reconnectDelay s * 2) 30000)"
  by (simp add: onclose_def Let_def)

lemma reconnectDelay_route: "reconnectDelay (snd (route ev a k pd s)) = reconnectDelay s"
  by (simp add: route_def deliver_def Let_def split: sum.splits option.splits)

lemma reconnectDelay_onmessage: "reconnectDelay (snd (onmessage ev a k d s)) = reconnectDelay s"
  by (simp add: onmessage_def reconnectDelay_route split: ws_data.splits option.splits)

lemma reconnectDelay_pingDeadline: "reconnectDelay (pingDeadline a s) = reconnectDelay s"
  by (simp add: pingDeadline_def split: option.splits)

lemma reconnectDelay_keepAliveTick: "reconnectDelay (keepAliveTick a s) = reconnectDelay s"
  by (simp add: keepAliveTick_def Let_def split: option.splits)

lemma reconnectDelay_onopen: "reconnectDelay (snd (onopen a k s)) = 1000"
  by (simp add: onopen_def ws_send_def Let_def split: option.splits ready_state.splits prod.splits)

lemma reconnectDelay_stop: "reconnectDelay (stop a s) = reconnectDelay s"
  by (simp add: stop_def Let_def split: option.splits)

lemmas reconnectDelay_handlers = reconnectDelay_connect reconnectDelay_onclose
  reconnectDelay_onmessage reconnectDelay_pingDeadline reconnectDelay_keepAliveTick
  reconnectDelay_onopen reconnectDelay_stop

lemma reconnectDelay_fire: "reconnectDelay (snd (fire ev a t kind s)) = reconnectDelay s"
  by (cases kind) (simp_all add: reconnectDelay_handlers)

lemma reconnectDelay_step:
  "reconnectDelay s = spec_delay n
   \<Longrightarrow> reconnectDelay (step ev a e s) = spec_delay (after_event e s n)"
proof (cases e)
  case (EvTimer t)
  then show "reconnectDelay s = spec_delay n \<Longrightarrow> ?thesis"
    by (simp add: step_fields reconnectDelay_fire split: option.splits prod.splits)
next
  case (EvOpen k)
  then show "reconnectDelay s = spec_delay n \<Longrightarrow> ?thesis"
    by (simp add: step_fields reconnectDelay_handlers spec_delay_def)
next
  case (EvClose k)
  then show "reconnectDelay s = spec_delay n \<Longrightarrow> ?thesis"
    by (simp add: step_fields reconnectDelay_handlers has_handlers_def set_ready_def
         spec_delay_Suc)
qed (simp_all add: step_fields reconnectDelay_handlers onerror_def on_unexpected_response_def)

lemma reconnectDelay_run:
  "reconnectDelay s = spec_delay n
   \<Longrightarrow> reconnectDelay (run ev a es s) = spec_delay (attempt_count ev a es s n)"
  by (induction es arbitrary: s n) (simp_all add: reconnectDelay_step)

text \<open>
  C3. The listener starts with the delay 1000 ms. When the delay stands at
  \<open>min(1000 * 2^n, 30000)\<close> and any events follow, a close that then schedules a reconnect
  arms the reconnect timer with \<open>min(1000 * 2^m, 30000)\<close>, \<open>m\<close> being the attempt count
  after those events; every open handler that runs sets the delay back to 1000 ms. So a
  first close reconnects after 1000 ms and a second close, with no open in between, after
  2000 ms.
\<close>

theorem backoff_delay:
  "reconnectDelay (snd (resilientEventListener ev a)) = 1000
   \<and> (reconnectDelay s = min (1000 * 2 ^ n) 30000 \<longrightarrow>
        has_handlers (run ev a es s) k \<longrightarrow> \<not> stopped (run ev a es s) \<longrightarrow>
        armed ReconnectTimer (step ev a (EvClose k) (run ev a es s))
          = armed ReconnectTimer (run ev a es s) @
            [(next_timer (run ev a es s), min (1000 * 2 ^ attempt_count ev a es s n) 30000)])
   \<and> (has_handlers s k \<longrightarrow> reconnectDelay (step ev a (EvOpen k) s) = 1000)"
proof (intro conjI impI)
  show "reconnectDelay (snd (resilientEventListener ev a)) = 1000"
    by (simp add: resilientEventListener_def reconnectDelay_connect initial_def)
next
  assume "reconnectDelay s = min (1000 * 2 ^ n) 30000"
    and "has_handlers (run ev a es s) k" and "\<not> stopped (run ev a es s)"
  moreover from this(1) have "reconnectDelay (run ev a es s)
      = min (1000 * 2 ^ attempt_count ev a es s n) 30000"
    using reconnectDelay_run [of s n ev a es] by (simp add: spec_delay_def)
  ultimately show "armed ReconnectTimer (step ev a (EvClose k) (run ev a es s))
          = armed ReconnectTimer (run ev a es s) @
            [(next_timer (run ev a es s), min (1000 * 2 ^ attempt_count ev a es s n) 30000)]"
    by (simp add: step_fields armed_reconnect_onclose)
next
  assume "has_handlers s k"
  then show "reconnectDelay (step ev a (EvOpen k) s) = 1000"
    by (simp add: step_fields reconnectDelay_onopen)
qed

theorem backoff_delay_witness:
  "armed ReconnectTimer (step sample_env resArgs (EvClose 0) listening) = [(0, 1000)]
   \<and> armed ReconnectTimer (step sample_env resArgs (EvClose 1) reconnected)
       = [(0, 1000), (1, 2000)]
   \<and> reconnectDelay (step sample_env resArgs (EvOpen 1) reconnected) = 1000"
proof -
  have r: "run sample_env resArgs [EvClose 0, EvTimer 0] listening = reconnected"
    by (simp only: reconnected_def)
  have start: "reconnectDelay listening = min (1000 * 2 ^ 0) 30000"
    by (simp add: listening_eq)
  have first: "has_handlers listening 0" "\<not> stopped listening"
    by (simp_all add: listening_eq has_handlers_def)
  have second: "has_handlers reconnected 1" "\<not> stopped reconnected"
    by (simp_all add: reconnected_eq has_handlers_def)
  have count: "attempt_count sample_env resArgs [EvClose 0, EvTimer 0] listening 0 = 1"
    using first by simp
  have before: "armed ReconnectTimer listening = []" "next_timer listening = 0"
    "armed ReconnectTimer reconnected = [(0, 1000)]" "next_timer reconnected = 1"
    by (simp_all add: reconnected_eq listening_eq armed_def)
  from backoff_delay [where s = listening and n = 0 and es = "[]" and k = 0 and ev = sample_env
        and a = resArgs]
    backoff_delay [where s = listening and n = 0 and es = "[EvClose 0, EvTimer 0]" and k = 1
        and ev = sample_env and a = resArgs, unfolded r]
    backoff_delay [where s = reconnected and k = 1 and ev = sample_env and a = resArgs]
    start first second count before
  show ?thesis by simp
qed

subsection \<open>Stopping and the timers\<close>

lemma pending_stop: "pending (stop a s) = pending s - held s"
  by (auto simp: stop_def Let_def held_def split: option.splits)

lemma pending_onclose:
  "pending (onclose a s) = (pending s - held s) \<union> (if stopped s then {} else {next_timer s})"
  by (auto simp: onclose_def Let_def held_def split: option.splits)



text \<open>
  C8, as claimed: \<open>stop()\<close> cancels every outstanding timer, a pending reconnect timer
  included. It does not: after a close has armed the reconnect timer, \<open>stop()\<close> leaves it
  armed.
\<close>

theorem stop_leaves_reconnect_timer:
  "timers (run sample_env resArgs [EvClose 0, EvStop] listening) = [(0, ReconnectTimer, 1000)]"
  by (simp add: listening_eq) (simp add: eval_defs)

text \<open>
  C8, amended: \<open>stop()\<close> cancels exactly the timers whose handles the listener holds, the
  keep-alive interval and the pong-deadline timer, and the close handler cancels the same
  two before it arms the reconnect timer. A pending reconnect timer is not cancelled by
  \<open>stop()\<close>; when it (or any other timer) fires after \<open>stop()\<close>, no transport is created.
\<close>

theorem held_timers_cancelled:
  "pending (stop a s) = pending s - held s
   \<and> pending (onclose a s) = (pending s - held s) \<union> (if stopped s then {} else {next_timer s})
   \<and> created (step ev a (EvTimer t) (stop a s)) = created s"
  by (simp add: pending_stop pending_onclose created_step stopped_stop created_stop)

end
